theory Spec2Isabelle
  imports Main "HOL-Library.Multiset"
begin

section \<open>Search job buffer service\<close>

text \<open>
  The class \<open>SearchJobBufferService\<close> holds two job buffers and talks to two injected
  collaborators: the \<open>JobQueueService\<close> (\<open>addBuffer\<close>, \<open>bufferSize\<close>, \<open>flush\<close>) and the
  configured job queue strategy. The collaborators are not part of the class, so they are
  parameters of the model: functions on an arbitrary world \<open>'w\<close> that return an outcome
  (a rejected promise is \<open>Inl\<close>) together with the world they leave behind. Every call
  the service makes is appended to a log, so that the order of the calls can be read off.
\<close>

datatype error = Rejected string

text \<open>A \<open>JobBuffer\<close>, as far as the service reads it: its \<open>id\<close>.\<close>

record job_buffer =
  buffer_id :: string

text \<open>The argument of \<open>SubscribableJob.updates\<close>.\<close>

record job_update_options =
  pollInterval :: nat
  timeoutMs :: nat

text \<open>\<open>DefaultSearchPluginInitOptions\<close>: \<open>bufferUpdates?: boolean\<close>, \<open>None\<close> when it is undefined.\<close>

record plugin_init_options =
  bufferUpdates :: "bool option"

datatype 'j jq_call =
    AddBuffer job_buffer
  | BufferSize "job_buffer list"
  | Flush "job_buffer list"
  | ForkJoinUpdates "('j \<times> job_update_options) list"

record ('w, 'j) job_queue_service =
  addBuffer :: "job_buffer \<Rightarrow> 'w \<Rightarrow> 'w"
  bufferSize :: "job_buffer list \<Rightarrow> 'w \<Rightarrow> (error + (string \<rightharpoonup> int)) \<times> 'w"
  flush :: "job_buffer list \<Rightarrow> 'w \<Rightarrow> (error + 'j list) \<times> 'w"

text \<open>
  The job queue strategy: whether \<open>isInspectableJobQueueStrategy\<close> holds of it, and what
  awaiting \<open>forkJoin\<close> of the \<open>updates\<close> streams of a list of subscribable jobs does.
\<close>

record ('w, 'j) job_queue_strategy =
  isInspectableJobQueueStrategy :: bool
  forkJoinUpdates :: "('j \<times> job_update_options) list \<Rightarrow> 'w \<Rightarrow> (error + unit) \<times> 'w"

record ('w, 'j) search_job_buffer_service =
  searchIndexJobBuffer :: job_buffer
  collectionJobBuffer :: job_buffer
  jobQueueService :: "('w, 'j) job_queue_service"
  jobQueueStrategy :: "('w, 'j) job_queue_strategy"
  options :: plugin_init_options

text \<open>The state the service runs in: the collaborators' world and the log of calls.\<close>

record ('w, 'c) traced =
  world :: 'w
  calls :: "'c list"

text \<open>JavaScript's \<open>!x\<close> and \<open>x === true\<close> on a \<open>boolean | undefined\<close>.\<close>

definition js_not :: "bool option \<Rightarrow> bool" where
  "js_not b = (case b of None \<Rightarrow> True | Some v \<Rightarrow> \<not> v)"

definition js_is_true :: "bool option \<Rightarrow> bool" where
  "js_is_true b = (case b of None \<Rightarrow> False | Some v \<Rightarrow> v)"

text \<open>\<open>m[k] ?? 0\<close>.\<close>

definition or_zero :: "(string \<rightharpoonup> int) \<Rightarrow> string \<Rightarrow> int" where
  "or_zero m k = (case m k of None \<Rightarrow> 0 | Some n \<Rightarrow> n)"

definition call_addBuffer ::
  "('w, 'j) job_queue_service \<Rightarrow> job_buffer \<Rightarrow> ('w, 'j jq_call) traced \<Rightarrow> ('w, 'j jq_call) traced"
where
  "call_addBuffer q b s = \<lparr>world = addBuffer q b (world s), calls = calls s @ [AddBuffer b]\<rparr>"

definition call_bufferSize ::
  "('w, 'j) job_queue_service \<Rightarrow> job_buffer list \<Rightarrow> ('w, 'j jq_call) traced
    \<Rightarrow> (error + (string \<rightharpoonup> int)) \<times> ('w, 'j jq_call) traced"
where
  "call_bufferSize q bs s =
     (case bufferSize q bs (world s) of
        (r, w) \<Rightarrow> (r, \<lparr>world = w, calls = calls s @ [BufferSize bs]\<rparr>))"

definition call_flush ::
  "('w, 'j) job_queue_service \<Rightarrow> job_buffer list \<Rightarrow> ('w, 'j jq_call) traced
    \<Rightarrow> (error + 'j list) \<times> ('w, 'j jq_call) traced"
where
  "call_flush q bs s =
     (case flush q bs (world s) of
        (r, w) \<Rightarrow> (r, \<lparr>world = w, calls = calls s @ [Flush bs]\<rparr>))"

definition call_forkJoinUpdates ::
  "('w, 'j) job_queue_strategy \<Rightarrow> ('j \<times> job_update_options) list \<Rightarrow> ('w, 'j jq_call) traced
    \<Rightarrow> (error + unit) \<times> ('w, 'j jq_call) traced"
where
  "call_forkJoinUpdates st subs s =
     (case forkJoinUpdates st subs (world s) of
        (r, w) \<Rightarrow> (r, \<lparr>world = w, calls = calls s @ [ForkJoinUpdates subs]\<rparr>))"

definition onApplicationBootstrap ::
  "('w, 'j) search_job_buffer_service \<Rightarrow> ('w, 'j jq_call) traced \<Rightarrow> ('w, 'j jq_call) traced"
where
  "onApplicationBootstrap svc s =
     (if js_is_true (bufferUpdates (options svc)) then
        call_addBuffer (jobQueueService svc) (collectionJobBuffer svc)
          (call_addBuffer (jobQueueService svc) (searchIndexJobBuffer svc) s)
      else s)"

definition getPendingSearchUpdates ::
  "('w, 'j) search_job_buffer_service \<Rightarrow> ('w, 'j jq_call) traced
    \<Rightarrow> (error + int) \<times> ('w, 'j jq_call) traced"
where
  "getPendingSearchUpdates svc s =
     (if js_not (bufferUpdates (options svc)) then (Inr 0, s)
      else
        (case call_bufferSize (jobQueueService svc)
                [searchIndexJobBuffer svc, collectionJobBuffer svc] s of
           (Inl e, s1) \<Rightarrow> (Inl e, s1)
         | (Inr bufferSizes, s1) \<Rightarrow>
             (Inr (or_zero bufferSizes (buffer_id (searchIndexJobBuffer svc))
                   + or_zero bufferSizes (buffer_id (collectionJobBuffer svc))), s1)))"

text \<open>The options every collection job is subscribed with.\<close>

definition updates_options :: job_update_options where
  "updates_options = \<lparr>pollInterval = 500, timeoutMs = 3 * 60 * 1000\<rparr>"

definition runPendingSearchUpdates ::
  "('w, 'j) search_job_buffer_service \<Rightarrow> ('w, 'j jq_call) traced
    \<Rightarrow> (error + unit) \<times> ('w, 'j jq_call) traced"
where
  "runPendingSearchUpdates svc s =
     (if js_not (bufferUpdates (options svc)) then (Inr (), s)
      else
        (case call_flush (jobQueueService svc) [collectionJobBuffer svc] s of
           (Inl e, s1) \<Rightarrow> (Inl e, s1)
         | (Inr collectionFilterJobs, s1) \<Rightarrow>
             (case (if collectionFilterJobs \<noteq> []
                        \<and> isInspectableJobQueueStrategy (jobQueueStrategy svc)
                    then call_forkJoinUpdates (jobQueueStrategy svc)
                           (map (\<lambda>job. (job, updates_options)) collectionFilterJobs) s1
                    else (Inr (), s1)) of
                (Inl e, s2) \<Rightarrow> (Inl e, s2)
              | (Inr _, s2) \<Rightarrow>
                  (case call_flush (jobQueueService svc) [searchIndexJobBuffer svc] s2 of
                     (Inl e, s3) \<Rightarrow> (Inl e, s3)
                   | (Inr _, s3) \<Rightarrow> (Inr (), s3)))))"


subsection \<open>An example configuration\<close>

text \<open>
  A small concrete job queue, used to run the service: the world is the list of jobs the
  queue has been handed, flushing the collection buffer yields the jobs 7 and 8, flushing
  the index buffer yields the job 9, and the size map only knows the index buffer.
\<close>

definition example_queue :: "(nat list, nat) job_queue_service" where
  "example_queue =
     \<lparr>addBuffer = (\<lambda>b w. w),
      bufferSize = (\<lambda>bs w. (Inr [''index'' \<mapsto> 3], w)),
      flush = (\<lambda>bs w. if map buffer_id bs = [''collection''] then (Inr [7, 8], w @ [7, 8])
                        else (Inr [9], w @ [9]))\<rparr>"

definition example_strategy :: "bool \<Rightarrow> (nat list, nat) job_queue_strategy" where
  "example_strategy inspectable =
     \<lparr>isInspectableJobQueueStrategy = inspectable,
      forkJoinUpdates = (\<lambda>subs w. (Inr (), w))\<rparr>"

definition example_service ::
  "bool option \<Rightarrow> bool \<Rightarrow> (nat list, nat) search_job_buffer_service"
where
  "example_service b inspectable =
     \<lparr>searchIndexJobBuffer = \<lparr>buffer_id = ''index''\<rparr>,
      collectionJobBuffer = \<lparr>buffer_id = ''collection''\<rparr>,
      jobQueueService = example_queue,
      jobQueueStrategy = example_strategy inspectable,
      options = \<lparr>bufferUpdates = b\<rparr>\<rparr>"

definition example_state :: "(nat list, nat jq_call) traced" where
  "example_state = \<lparr>world = [], calls = []\<rparr>"

section \<open>Event handlers of the Elasticsearch plugin\<close>

text \<open>
  \<open>ElasticsearchPlugin.onVendureBootstrap\<close> subscribes three handlers to the event bus.
  Each one delegates to \<open>ElasticsearchIndexService\<close> or \<open>ElasticsearchService\<close>, which are
  injected and are parameters here, as is the imported helper \<open>idsAreEqual\<close>. The type
  of ids is a parameter too. Every call a handler makes is logged.
\<close>

record 'id zone =
  zone_id :: 'id

record 'id channel =
  defaultTaxZone :: "'id zone option"

record 'id request_context =
  channel :: "'id channel"

record 'id tax_rate =
  zone :: "'id zone"

text \<open>
  The entity of a \<open>CatalogModificationEvent\<close>, by the class it is an instance of:
  \<open>Product\<close>, \<open>ProductVariant\<close>, or any other entity class.
\<close>

datatype 'id entity =
    is_Product: Product 'id
  | is_ProductVariant: ProductVariant 'id
  | OtherEntity 'id

datatype ('id, 'job) es_call =
    UpdateProductOrVariant "'id request_context" "'id entity"
  | UpdateVariantsById "'id request_context" "'id list"
  | Start 'job
  | Reindex "'id request_context"

text \<open>
  \<open>updateProductOrVariant\<close> and \<open>updateVariantsById\<close> return a job, on which the handler
  calls \<open>start\<close>.
\<close>

record ('w, 'id, 'job, 'r) elasticsearch_index_service =
  updateProductOrVariant ::
    "'id request_context \<Rightarrow> 'id entity \<Rightarrow> 'w \<Rightarrow> (error + 'job) \<times> 'w"
  updateVariantsById ::
    "'id request_context \<Rightarrow> 'id list \<Rightarrow> 'w \<Rightarrow> (error + 'job) \<times> 'w"
  start :: "'job \<Rightarrow> 'w \<Rightarrow> (error + 'r) \<times> 'w"

record ('w, 'id, 'r) elasticsearch_service =
  reindex :: "'id request_context \<Rightarrow> 'w \<Rightarrow> (error + 'r) \<times> 'w"

record ('w, 'id, 'job, 'r) elasticsearch_plugin =
  elasticsearchIndexService :: "('w, 'id, 'job, 'r) elasticsearch_index_service"
  elasticsearchService :: "('w, 'id, 'r) elasticsearch_service"
  idsAreEqual :: "'id \<Rightarrow> 'id \<Rightarrow> bool"

text \<open>Running a collaborator's operation in the current world and logging the call.\<close>

definition logged ::
  "('id, 'job) es_call \<Rightarrow> ('w \<Rightarrow> 'a \<times> 'w) \<Rightarrow> ('w, ('id, 'job) es_call) traced
    \<Rightarrow> 'a \<times> ('w, ('id, 'job) es_call) traced"
where
  "logged c f s = (case f (world s) of (r, w) \<Rightarrow> (r, \<lparr>world = w, calls = calls s @ [c]\<rparr>))"

text \<open>
  The handlers return what the call chain returns, or nothing (\<open>None\<close>, JavaScript's
  \<open>undefined\<close>) when the guard fails.
\<close>

definition catalogModificationHandler ::
  "('w, 'id, 'job, 'r) elasticsearch_plugin \<Rightarrow> 'id request_context \<Rightarrow> 'id entity
    \<Rightarrow> ('w, ('id, 'job) es_call) traced
    \<Rightarrow> (error + 'r option) \<times> ('w, ('id, 'job) es_call) traced"
where
  "catalogModificationHandler this ctx entity s =
     (if is_Product entity \<or> is_ProductVariant entity then
        (case logged (UpdateProductOrVariant ctx entity)
                (updateProductOrVariant (elasticsearchIndexService this) ctx entity) s of
           (Inl e, s1) \<Rightarrow> (Inl e, s1)
         | (Inr job, s1) \<Rightarrow>
             (case logged (Start job) (start (elasticsearchIndexService this) job) s1 of
                (Inl e, s2) \<Rightarrow> (Inl e, s2)
              | (Inr r, s2) \<Rightarrow> (Inr (Some r), s2)))
      else (Inr None, s))"

definition collectionModificationHandler ::
  "('w, 'id, 'job, 'r) elasticsearch_plugin \<Rightarrow> 'id request_context \<Rightarrow> 'id list
    \<Rightarrow> ('w, ('id, 'job) es_call) traced
    \<Rightarrow> (error + 'r option) \<times> ('w, ('id, 'job) es_call) traced"
where
  "collectionModificationHandler this ctx productVariantIds s =
     (case logged (UpdateVariantsById ctx productVariantIds)
             (updateVariantsById (elasticsearchIndexService this) ctx productVariantIds) s of
        (Inl e, s1) \<Rightarrow> (Inl e, s1)
      | (Inr job, s1) \<Rightarrow>
          (case logged (Start job) (start (elasticsearchIndexService this) job) s1 of
             (Inl e, s2) \<Rightarrow> (Inl e, s2)
           | (Inr r, s2) \<Rightarrow> (Inr (Some r), s2)))"

text \<open>
  \<open>defaultTaxZone && idsAreEqual(defaultTaxZone.id, event.taxRate.zone.id)\<close>: an absent
  default tax zone is falsy and the helper is not called.
\<close>

definition taxRateModificationHandler ::
  "('w, 'id, 'job, 'r) elasticsearch_plugin \<Rightarrow> 'id request_context \<Rightarrow> 'id tax_rate
    \<Rightarrow> ('w, ('id, 'job) es_call) traced
    \<Rightarrow> (error + 'r option) \<times> ('w, ('id, 'job) es_call) traced"
where
  "taxRateModificationHandler this ctx taxRate s =
     (case defaultTaxZone (channel ctx) of
        None \<Rightarrow> (Inr None, s)
      | Some z \<Rightarrow>
          if idsAreEqual this (zone_id z) (zone_id (zone taxRate)) then
            (case logged (Reindex ctx) (reindex (elasticsearchService this) ctx) s of
               (Inl e, s1) \<Rightarrow> (Inl e, s1)
             | (Inr r, s1) \<Rightarrow> (Inr (Some r), s1))
          else (Inr None, s))"

subsection \<open>An example plugin\<close>

text \<open>
  Ids are numbers compared by equality, the world counts the jobs created so far, a job
  is its number, and starting a job or reindexing returns a number.
\<close>

definition example_plugin :: "(nat, nat, nat, nat) elasticsearch_plugin" where
  "example_plugin =
     \<lparr>elasticsearchIndexService =
        \<lparr>updateProductOrVariant = (\<lambda>ctx e w. (Inr (Suc w), Suc w)),
         updateVariantsById = (\<lambda>ctx ids w. (Inr (Suc w), Suc w)),
         start = (\<lambda>job w. (Inr job, w))\<rparr>,
      elasticsearchService = \<lparr>reindex = (\<lambda>ctx w. (Inr 0, Suc w))\<rparr>,
      idsAreEqual = (=)\<rparr>"

definition example_ctx :: "nat option \<Rightarrow> nat request_context" where
  "example_ctx z = \<lparr>channel = \<lparr>defaultTaxZone = map_option (\<lambda>i. \<lparr>zone_id = i\<rparr>) z\<rparr>\<rparr>"

definition example_start :: "(nat, (nat, nat) es_call) traced" where
  "example_start = \<lparr>world = 0, calls = []\<rparr>"

section \<open>Job buffers, their reducers and the flush\<close>

text \<open>
  The buffer classes (\<open>SearchIndexJobBuffer\<close>, \<open>CollectionJobBuffer\<close>) and the
  \<open>JobQueueService\<close> that flushes them are used by the service above but their bodies are
  not among the source files. The definitions of this section follow the specification's
  description of them instead. A job is represented by its payload.
\<close>

text \<open>
  Modelled from the spec: the reducers' deduplication, whose code is missing. Of the
  elements that share a key only the first, in arrival order, is kept.
\<close>

fun dedup_by :: "('a \<Rightarrow> 'k) \<Rightarrow> 'a list \<Rightarrow> 'a list" where
  "dedup_by key [] = []"
| "dedup_by key (x # xs) = x # dedup_by key (filter (\<lambda>y. key y \<noteq> key x) xs)"

text \<open>
  Modelled from the spec: the payload of an index-update job, whose type is missing. It
  is either an update of some entities, with the channel/language context \<open>'c\<close> it was
  requested in and the ids of the affected entities, or a "reindex everything" job.
\<close>

datatype ('c, 'e) index_job =
    UpdateEntities 'c "'e list"
  | is_reindex: ReindexEverything 'c

text \<open>Modelled from the spec: the context a job carries; the accessor is missing.\<close>

fun job_context :: "('c, 'e) index_job \<Rightarrow> 'c" where
  "job_context (UpdateEntities c ids) = c"
| "job_context (ReindexEverything c) = c"

text \<open>
  Modelled from the spec: what a job asks for, as (context, entity id) pairs; the
  accessors are missing with the payload type.
\<close>

fun requests :: "('c, 'e) index_job \<Rightarrow> ('c \<times> 'e) list" where
  "requests (UpdateEntities c ids) = map (Pair c) ids"
| "requests (ReindexEverything c) = []"

text \<open>
  Modelled from the spec: the requests of a batch in arrival order, and the entity ids
  they affect; both are missing with the payload type.
\<close>

definition all_requests :: "('c, 'e) index_job list \<Rightarrow> ('c \<times> 'e) list" where
  "all_requests jobs = concat (map requests jobs)"

definition affected_ids :: "('c, 'e) index_job list \<Rightarrow> 'e list" where
  "affected_ids jobs = map snd (all_requests jobs)"

text \<open>
  Modelled from the spec: the batching step of the index-update reducer, whose code is
  missing. The requests are collapsed into one batch job per context, contexts in the
  order of their first request.
\<close>

fun group_by_context :: "('c \<times> 'e) list \<Rightarrow> ('c, 'e) index_job list" where
  "group_by_context [] = []"
| "group_by_context ((c, i) # rs) =
     UpdateEntities c (i # map snd (filter (\<lambda>r. fst r = c) rs))
       # group_by_context (filter (\<lambda>r. fst r \<noteq> c) rs)"

text \<open>
  Modelled from the spec: the \<open>collect\<close> of the index-update reducer
  (\<open>SearchIndexJobBuffer\<close>), whose code is missing. A "reindex everything" job in the
  batch supersedes all other jobs. Otherwise the requests are deduplicated by entity id
  (an id requested under several contexts is kept once, with the context of its first
  request) and collapsed into batch jobs that keep the context.
\<close>

definition index_update_collect :: "('c, 'e) index_job list \<Rightarrow> ('c, 'e) index_job list" where
  "index_update_collect batch =
     (case find is_reindex batch of
        Some j \<Rightarrow> [j]
      | None \<Rightarrow> group_by_context (dedup_by snd (all_requests batch)))"

text \<open>
  Modelled from the spec: the payload of a "recompute this collection's membership" job,
  whose type is missing: a context and the id of the collection.
\<close>

record ('c, 'k) collection_job =
  job_ctx :: 'c
  collectionId :: 'k

text \<open>
  Modelled from the spec: the \<open>collect\<close> of the collection-filter reducer
  (\<open>CollectionJobBuffer\<close>), whose code is missing. One job per distinct collection id is
  kept, and the jobs are emitted by hierarchy depth, shallowest first; \<open>depth\<close> gives
  the depth of a collection in the hierarchy. The sort is stable, so jobs of equal depth
  stay in arrival order.
\<close>

definition collection_filter_collect ::
  "('k \<Rightarrow> nat) \<Rightarrow> ('c, 'k) collection_job list \<Rightarrow> ('c, 'k) collection_job list"
where
  "collection_filter_collect depth batch =
     sort_key (\<lambda>j. depth (collectionId j)) (dedup_by collectionId batch)"

text \<open>
  Modelled from the spec: the collection hierarchy, which is missing. \<open>parent\<close> gives the
  parent of a collection (none for a root), and \<open>depth\<close> is the hierarchy's depth when a
  root has depth 0 and a child is one deeper than its parent.
\<close>

definition hierarchy_depth :: "('k \<Rightarrow> 'k option) \<Rightarrow> ('k \<Rightarrow> nat) \<Rightarrow> bool" where
  "hierarchy_depth parent depth =
     (\<forall>c. depth c = (case parent c of None \<Rightarrow> 0 | Some p \<Rightarrow> Suc (depth p)))"

text \<open>
  Modelled from the spec: a job buffer (section 4.1), whose class is missing: its
  identity, the predicate that claims a job, the reducer \<open>collect\<close> (which may raise),
  and the held batch in arrival order.
\<close>

record 'j spec_buffer =
  identity :: string
  accepts :: "'j \<Rightarrow> bool"
  collect :: "'j list \<Rightarrow> error + 'j list"
  held :: "'j list"

text \<open>Modelled from the spec: \<open>add\<close> appends a job to the held batch; its code is missing.\<close>

definition add :: "'j \<Rightarrow> 'j spec_buffer \<Rightarrow> 'j spec_buffer" where
  "add j b = b\<lparr>held := held b @ [j]\<rparr>"

text \<open>Modelled from the spec: several calls of \<open>add\<close>, one job after the other.\<close>

definition add_all :: "'j list \<Rightarrow> 'j spec_buffer \<Rightarrow> 'j spec_buffer" where
  "add_all js b = foldl (\<lambda>b j. add j b) b js"

text \<open>Modelled from the spec: \<open>clear\<close> empties the held batch; its code is missing.\<close>

definition clear :: "'j spec_buffer \<Rightarrow> 'j spec_buffer" where
  "clear b = b\<lparr>held := []\<rparr>"

text \<open>
  Modelled from the spec: the flush of one buffer (section 4.2), whose code is missing:
  \<open>collect\<close> is called on the held batch; when it raises, the flush aborts with the error
  and nothing is cleared; otherwise every resulting job is handed to the execution queue
  and only then is the buffer cleared. The execution queue is the list of the jobs handed
  to it; a queue that rejects a job is not modelled.
\<close>

definition flush_buffer ::
  "'j spec_buffer \<Rightarrow> 'j list \<Rightarrow> (error + 'j list) \<times> 'j spec_buffer \<times> 'j list"
where
  "flush_buffer b queue =
     (case collect b (held b) of
        Inl e \<Rightarrow> (Inl e, b, queue)
      | Inr jobs \<Rightarrow> (Inr jobs, clear b, queue @ jobs))"

text \<open>
  Modelled from the spec: the flush of the named buffers of a registry, in registration
  order, whose code is missing. An error ends the flush; the buffers flushed before it
  stay flushed.
\<close>

fun flush_named ::
  "(string \<Rightarrow> bool) \<Rightarrow> 'j spec_buffer list \<Rightarrow> 'j list
    \<Rightarrow> (error + 'j list) \<times> 'j spec_buffer list \<times> 'j list"
where
  "flush_named named [] queue = (Inr [], [], queue)"
| "flush_named named (b # bs) queue =
     (if named (identity b) then
        (case flush_buffer b queue of
           (Inl e, b1, q1) \<Rightarrow> (Inl e, b1 # bs, q1)
         | (Inr jobs, b1, q1) \<Rightarrow>
             (case flush_named named bs q1 of
                (Inl e, bs2, q2) \<Rightarrow> (Inl e, b1 # bs2, q2)
              | (Inr later, bs2, q2) \<Rightarrow> (Inr (jobs @ later), b1 # bs2, q2)))
      else
        (case flush_named named bs queue of
           (r, bs2, q2) \<Rightarrow> (r, b # bs2, q2)))"

text \<open>
  Modelled from the spec: the buffer registry, whose class is missing: the registered
  buffers in registration order and the execution queue; \<open>flush\<close> of a list of buffer
  identities flushes the buffers so named, or all of them when none is named.
\<close>

record 'j registry =
  buffers :: "'j spec_buffer list"
  executionQueue :: "'j list"

definition registry_flush ::
  "string list \<Rightarrow> 'j registry \<Rightarrow> (error + 'j list) \<times> 'j registry"
where
  "registry_flush names reg =
     (case flush_named (\<lambda>i. names = [] \<or> i \<in> set names) (buffers reg) (executionQueue reg) of
        (r, bs, q) \<Rightarrow> (r, \<lparr>buffers = bs, executionQueue = q\<rparr>))"

subsection \<open>Example hierarchy, buffer and registry\<close>

text \<open>Collection 1 is a root and collection 2 is its child.\<close>

definition example_parent :: "nat \<Rightarrow> nat option" where
  "example_parent c = (if c = 2 then Some 1 else None)"

definition example_depth :: "nat \<Rightarrow> nat" where
  "example_depth c = (if c = 2 then 1 else 0)"

text \<open>A buffer whose reducer raises on a batch that holds the job 13.\<close>

definition example_buffer :: "nat list \<Rightarrow> nat spec_buffer" where
  "example_buffer js =
     \<lparr>identity = ''collection'',
      accepts = (\<lambda>j. True),
      collect = (\<lambda>jobs. if 13 \<in> set jobs then Inl (Rejected ''collect failed'')
                         else Inr (remdups jobs)),
      held = js\<rparr>"

definition example_registry :: "nat registry" where
  "example_registry =
     \<lparr>buffers = [example_buffer [4, 13, 4]\<lparr>identity := ''index''\<rparr>, example_buffer [5, 13]],
      executionQueue = [1]\<rparr>"

section \<open>Properties of the search job buffer service\<close>

text \<open>
  Claim C1. With buffering enabled, \<open>runPendingSearchUpdates\<close> calls the flush of the
  collection buffer first, whatever happens afterwards. When that flush returns the jobs
  \<open>jobs\<close>: if there is at least one job and the strategy is inspectable, the next call
  awaits the \<open>updates\<close> of every one of these jobs, each subscribed with a poll interval of
  500 ms and a timeout of 180000 ms (3 minutes), and the index buffer is flushed only
  after that wait, in the world the wait leaves behind (a wait that rejects ends the run
  with its error, and the index buffer is not flushed); otherwise the two flushes follow
  each other with no wait in between.
\<close>

theorem runPendingSearchUpdates_order:
  assumes on: "\<not> js_not (bufferUpdates (options svc))"
  shows "(\<exists>rest. calls (snd (runPendingSearchUpdates svc s)) =
            calls s @ Flush [collectionJobBuffer svc] # rest) \<and>
    (\<forall>jobs w1.
       flush (jobQueueService svc) [collectionJobBuffer svc] (world s) = (Inr jobs, w1) \<longrightarrow>
       (if jobs \<noteq> [] \<and> isInspectableJobQueueStrategy (jobQueueStrategy svc) then
          (case forkJoinUpdates (jobQueueStrategy svc)
                  (map (\<lambda>j. (j, \<lparr>pollInterval = 500, timeoutMs = 180000\<rparr>)) jobs) w1 of
             (Inl e, w2) \<Rightarrow>
               runPendingSearchUpdates svc s =
                 (Inl e, \<lparr>world = w2, calls = calls s @
                    [Flush [collectionJobBuffer svc],
                     ForkJoinUpdates
                       (map (\<lambda>j. (j, \<lparr>pollInterval = 500, timeoutMs = 180000\<rparr>)) jobs)]\<rparr>)
           | (Inr u, w2) \<Rightarrow>
               snd (runPendingSearchUpdates svc s) =
                 \<lparr>world = snd (flush (jobQueueService svc) [searchIndexJobBuffer svc] w2),
                  calls = calls s @
                    [Flush [collectionJobBuffer svc],
                     ForkJoinUpdates
                       (map (\<lambda>j. (j, \<lparr>pollInterval = 500, timeoutMs = 180000\<rparr>)) jobs),
                     Flush [searchIndexJobBuffer svc]]\<rparr>)
        else
          snd (runPendingSearchUpdates svc s) =
            \<lparr>world = snd (flush (jobQueueService svc) [searchIndexJobBuffer svc] w1),
             calls = calls s @
               [Flush [collectionJobBuffer svc], Flush [searchIndexJobBuffer svc]]\<rparr>))"
proof -
  note defs = runPendingSearchUpdates_def call_flush_def call_forkJoinUpdates_def
    updates_options_def
  have first: "\<exists>rest. calls (snd (runPendingSearchUpdates svc s)) =
          calls s @ Flush [collectionJobBuffer svc] # rest"
    using on by (auto simp: defs split: prod.splits sum.splits)
  show ?thesis
    apply (rule conjI)
     apply (rule first)
    using on by (auto simp: defs split: prod.splits sum.splits)
qed

text \<open>
  The theorem at the example configuration: with an inspectable strategy the wait on the
  jobs 7 and 8 stands between the two flushes; without one the flushes are adjacent.
\<close>

theorem runPendingSearchUpdates_order_witness:
  "snd (runPendingSearchUpdates (example_service (Some True) True) example_state) =
     \<lparr>world = [7, 8, 9],
      calls = [Flush [\<lparr>buffer_id = ''collection''\<rparr>],
               ForkJoinUpdates [(7, \<lparr>pollInterval = 500, timeoutMs = 180000\<rparr>),
                                (8, \<lparr>pollInterval = 500, timeoutMs = 180000\<rparr>)],
               Flush [\<lparr>buffer_id = ''index''\<rparr>]]\<rparr> \<and>
   snd (runPendingSearchUpdates (example_service (Some True) False) example_state) =
     \<lparr>world = [7, 8, 9],
      calls = [Flush [\<lparr>buffer_id = ''collection''\<rparr>], Flush [\<lparr>buffer_id = ''index''\<rparr>]]\<rparr>"
  using runPendingSearchUpdates_order [of "example_service (Some True) True" example_state]
    runPendingSearchUpdates_order [of "example_service (Some True) False" example_state]
  by (simp add: example_service_def example_queue_def example_strategy_def example_state_def
        js_not_def)

text \<open>
  Claim C8. \<open>getPendingSearchUpdates\<close> returns 0, without asking the job queue service,
  when \<open>bufferUpdates\<close> is false or undefined. Otherwise, when the size map comes back, it
  returns the entry of the index buffer's id plus the entry of the collection buffer's
  id, an id with no entry counting as 0.
\<close>

theorem getPendingSearchUpdates_sum:
  "(js_not (bufferUpdates (options svc)) \<longrightarrow> getPendingSearchUpdates svc s = (Inr 0, s)) \<and>
   (\<not> js_not (bufferUpdates (options svc)) \<and>
      bufferSize (jobQueueService svc) [searchIndexJobBuffer svc, collectionJobBuffer svc]
        (world s) = (Inr bufferSizes, w) \<longrightarrow>
      fst (getPendingSearchUpdates svc s) =
        Inr ((case bufferSizes (buffer_id (searchIndexJobBuffer svc)) of
                None \<Rightarrow> 0 | Some n \<Rightarrow> n)
           + (case bufferSizes (buffer_id (collectionJobBuffer svc)) of
                None \<Rightarrow> 0 | Some n \<Rightarrow> n)))"
  by (simp add: getPendingSearchUpdates_def call_bufferSize_def or_zero_def)

text \<open>
  At the example configuration the size map has 3 for the index buffer and no entry for
  the collection buffer: the sum is 3 with buffering on, and 0 with buffering off or unset.
\<close>

theorem getPendingSearchUpdates_sum_witness:
  "getPendingSearchUpdates (example_service None True) example_state = (Inr 0, example_state) \<and>
   getPendingSearchUpdates (example_service (Some False) True) example_state
     = (Inr 0, example_state) \<and>
   fst (getPendingSearchUpdates (example_service (Some True) True) example_state) = Inr 3"
  using getPendingSearchUpdates_sum [of "example_service None True" example_state]
    getPendingSearchUpdates_sum [of "example_service (Some False) True" example_state]
    getPendingSearchUpdates_sum [of "example_service (Some True) True" example_state
      "[''index'' \<mapsto> 3]" "[]"]
  by (simp add: example_service_def example_queue_def example_state_def js_not_def)

text \<open>
  Claim C9. When \<open>bufferUpdates\<close> is false or undefined, \<open>runPendingSearchUpdates\<close>
  returns at once: the world of the job queue is the one it started in and no call was
  made, so nothing was flushed and nothing was handed to the execution queue. In that
  configuration \<open>onApplicationBootstrap\<close> registers no buffer either, and the pending
  count read before or after the run is 0.
\<close>

theorem runPendingSearchUpdates_disabled:
  assumes "js_not (bufferUpdates (options svc))"
  shows "runPendingSearchUpdates svc s = (Inr (), s) \<and>
         onApplicationBootstrap svc s = s \<and>
         getPendingSearchUpdates svc (snd (runPendingSearchUpdates svc s)) = (Inr 0, s)"
  using assms
  by (cases "bufferUpdates (options svc)")
     (simp_all add: onApplicationBootstrap_def runPendingSearchUpdates_def
        getPendingSearchUpdates_def js_not_def js_is_true_def)

theorem runPendingSearchUpdates_disabled_witness:
  "runPendingSearchUpdates (example_service (Some False) True) example_state
     = (Inr (), example_state) \<and>
   onApplicationBootstrap (example_service (Some False) True) example_state = example_state \<and>
   getPendingSearchUpdates (example_service (Some False) True)
     (snd (runPendingSearchUpdates (example_service (Some False) True) example_state))
     = (Inr 0, example_state)"
proof -
  have off: "js_not (bufferUpdates (options (example_service (Some False) True)))"
    by (simp add: example_service_def js_not_def)
  show ?thesis
    by (rule runPendingSearchUpdates_disabled [OF off])
qed

section \<open>Properties of the event handlers\<close>

text \<open>
  Claim C7. The handler of a tax-rate modification event calls \<open>reindex\<close>, once and for the
  event's context, exactly when the channel has a default tax zone whose id
  \<open>idsAreEqual\<close> accepts as equal to the id of the changed tax rate's zone. In every other
  case (another zone, or no default tax zone) it returns without calling anything: the
  state is the one it started in.
\<close>

theorem taxRate_reindex_iff_default_zone:
  "if \<exists>z. defaultTaxZone (channel ctx) = Some z
          \<and> idsAreEqual this (zone_id z) (zone_id (zone taxRate))
   then snd (taxRateModificationHandler this ctx taxRate s) =
          \<lparr>world = snd (reindex (elasticsearchService this) ctx (world s)),
           calls = calls s @ [Reindex ctx]\<rparr>
   else taxRateModificationHandler this ctx taxRate s = (Inr None, s)"
  by (auto simp: taxRateModificationHandler_def logged_def
        split: option.splits prod.splits sum.splits)

text \<open>
  At the example plugin: a tax rate of zone 4 reindexes when zone 4 is the default tax
  zone, and does nothing when zone 5 is, or when there is no default tax zone.
\<close>

theorem taxRate_reindex_iff_default_zone_witness:
  "snd (taxRateModificationHandler example_plugin (example_ctx (Some 4))
          \<lparr>zone = \<lparr>zone_id = 4\<rparr>\<rparr> example_start) =
     \<lparr>world = 1, calls = [Reindex (example_ctx (Some 4))]\<rparr> \<and>
   taxRateModificationHandler example_plugin (example_ctx (Some 5))
       \<lparr>zone = \<lparr>zone_id = 4\<rparr>\<rparr> example_start = (Inr None, example_start) \<and>
   taxRateModificationHandler example_plugin (example_ctx None)
       \<lparr>zone = \<lparr>zone_id = 4\<rparr>\<rparr> example_start = (Inr None, example_start)"
  using taxRate_reindex_iff_default_zone [of "example_ctx (Some 4)" example_plugin
      "\<lparr>zone = \<lparr>zone_id = 4\<rparr>\<rparr>" example_start]
    taxRate_reindex_iff_default_zone [of "example_ctx (Some 5)" example_plugin
      "\<lparr>zone = \<lparr>zone_id = 4\<rparr>\<rparr>" example_start]
    taxRate_reindex_iff_default_zone [of "example_ctx None" example_plugin
      "\<lparr>zone = \<lparr>zone_id = 4\<rparr>\<rparr>" example_start]
  by (simp add: example_plugin_def example_ctx_def example_start_def)

text \<open>
  Claim C10. The handler of a catalog modification event whose entity is neither a
  \<open>Product\<close> nor a \<open>ProductVariant\<close> returns without calling the index service: the state
  is the one it started in. For a \<open>Product\<close> or a \<open>ProductVariant\<close> its first call is
  \<open>updateProductOrVariant\<close> for that one entity, and, when that returns a job, the only
  other call is the \<open>start\<close> of that job.
\<close>

theorem catalog_other_entity_no_update:
  "if is_Product entity \<or> is_ProductVariant entity then
     (case updateProductOrVariant (elasticsearchIndexService this) ctx entity (world s) of
        (Inl e, w1) \<Rightarrow>
          catalogModificationHandler this ctx entity s =
            (Inl e, \<lparr>world = w1, calls = calls s @ [UpdateProductOrVariant ctx entity]\<rparr>)
      | (Inr job, w1) \<Rightarrow>
          snd (catalogModificationHandler this ctx entity s) =
            \<lparr>world = snd (start (elasticsearchIndexService this) job w1),
             calls = calls s @ [UpdateProductOrVariant ctx entity, Start job]\<rparr>)
   else catalogModificationHandler this ctx entity s = (Inr None, s)"
  by (auto simp: catalogModificationHandler_def logged_def split: prod.splits sum.splits)

theorem catalog_other_entity_no_update_witness:
  "catalogModificationHandler example_plugin (example_ctx None) (OtherEntity 3) example_start
     = (Inr None, example_start) \<and>
   snd (catalogModificationHandler example_plugin (example_ctx None) (Product 3) example_start)
     = \<lparr>world = 1,
        calls = [UpdateProductOrVariant (example_ctx None) (Product 3), Start 1]\<rparr> \<and>
   snd (catalogModificationHandler example_plugin (example_ctx None) (ProductVariant 3)
          example_start)
     = \<lparr>world = 1,
        calls = [UpdateProductOrVariant (example_ctx None) (ProductVariant 3), Start 1]\<rparr>"
  using catalog_other_entity_no_update [of "OtherEntity 3" example_plugin "example_ctx None"
      example_start]
    catalog_other_entity_no_update [of "Product 3" example_plugin "example_ctx None"
      example_start]
    catalog_other_entity_no_update [of "ProductVariant 3" example_plugin "example_ctx None"
      example_start]
  by (simp add: example_plugin_def example_start_def)

section \<open>Properties of the reducers and of the flush\<close>

subsection \<open>Deduplication and batching\<close>

lemma set_dedup_by: "key ` set (dedup_by key xs) = key ` set xs"
  by (induction key xs rule: dedup_by.induct) auto

lemma dedup_by_subset: "set (dedup_by key xs) \<subseteq> set xs"
  by (induction key xs rule: dedup_by.induct) auto

lemma distinct_dedup_by: "distinct (map key (dedup_by key xs))"
proof (induction key xs rule: dedup_by.induct)
  case (1 key)
  show ?case by simp
next
  case (2 key x xs)
  have "key x \<notin> key ` set (dedup_by key (filter (\<lambda>y. key y \<noteq> key x) xs))"
    using dedup_by_subset [of key "filter (\<lambda>y. key y \<noteq> key x) xs"] by auto
  with 2 show ?case by simp
qed

lemma same_context_requests:
  "map (Pair c \<circ> snd) (filter (\<lambda>r. fst r = c) rs) = filter (\<lambda>r. fst r = c) rs"
  by (induction rs) auto

lemma all_requests_group_step:
  "all_requests (group_by_context ((c, i) # rs)) =
     (c, i) # filter (\<lambda>r. fst r = c) rs
       @ all_requests (group_by_context (filter (\<lambda>r. fst r \<noteq> c) rs))"
  by (simp add: all_requests_def same_context_requests)

lemma mset_group_by_context: "mset (all_requests (group_by_context rs)) = mset rs"
proof (induction rs rule: group_by_context.induct)
  case 1
  show ?case by (simp add: all_requests_def)
next
  case (2 c i rs)
  have "mset (all_requests (group_by_context ((c, i) # rs))) =
        {#(c, i)#} + (filter_mset (\<lambda>r. fst r = c) (mset rs)
          + filter_mset (\<lambda>r. \<not> fst r = c) (mset rs))"
    using 2 by (simp only: all_requests_group_step mset.simps mset_append mset_filter) simp
  also have "\<dots> = mset ((c, i) # rs)"
    using multiset_partition [of "mset rs" "\<lambda>r. fst r = c"] by simp
  finally show ?case .
qed

lemma contexts_group_subset: "set (map job_context (group_by_context rs)) \<subseteq> fst ` set rs"
  by (induction rs rule: group_by_context.induct) auto

lemma distinct_contexts_group: "distinct (map job_context (group_by_context rs))"
proof (induction rs rule: group_by_context.induct)
  case 1
  show ?case by simp
next
  case (2 c i rs)
  have "c \<notin> set (map job_context (group_by_context (filter (\<lambda>r. fst r \<noteq> c) rs)))"
    using contexts_group_subset [of "filter (\<lambda>r. fst r \<noteq> c) rs"] by auto
  with 2 show ?case by simp
qed

text \<open>
  Claim C4. When the batch holds no "reindex everything" job, the ids affected by the
  jobs that the index-update reducer returns are pairwise different across the whole
  output and are, as a set, the ids affected by the batch; every (context, id) pair of the
  output was requested under that context in the batch; and there is one output job per
  context. When the batch holds a "reindex everything" job, the reducer returns that job
  and nothing else.
\<close>

theorem index_update_collect_ids:
  "(if \<exists>j \<in> set batch. is_reindex j
    then \<exists>j \<in> set batch. is_reindex j \<and> index_update_collect batch = [j]
    else distinct (affected_ids (index_update_collect batch))
       \<and> set (affected_ids (index_update_collect batch)) = set (affected_ids batch)
       \<and> set (all_requests (index_update_collect batch)) \<subseteq> set (all_requests batch)
       \<and> distinct (map job_context (index_update_collect batch)))"
proof (cases "find is_reindex batch")
  case None
  then have no: "\<not> (\<exists>j \<in> set batch. is_reindex j)"
    by (simp add: find_None_iff)
  let ?rs = "dedup_by snd (all_requests batch)"
  have out: "index_update_collect batch = group_by_context ?rs"
    using None by (simp add: index_update_collect_def)
  have m: "mset (all_requests (index_update_collect batch)) = mset ?rs"
    by (simp add: out mset_group_by_context)
  have "mset (affected_ids (index_update_collect batch)) = mset (map snd ?rs)"
    unfolding affected_ids_def using m by (metis mset_map)
  then have d: "distinct (affected_ids (index_update_collect batch))"
    using distinct_dedup_by [of snd "all_requests batch"] by (metis mset_eq_imp_distinct_iff)
  have s: "set (all_requests (index_update_collect batch)) = set ?rs"
    using m by (metis set_mset_mset)
  have "set (affected_ids (index_update_collect batch)) = snd ` set ?rs"
    by (simp add: affected_ids_def s)
  also have "\<dots> = set (affected_ids batch)"
    by (simp add: set_dedup_by affected_ids_def)
  finally have e: "set (affected_ids (index_update_collect batch)) = set (affected_ids batch)" .
  have "set (all_requests (index_update_collect batch)) \<subseteq> set (all_requests batch)"
    using s dedup_by_subset [of snd "all_requests batch"] by simp
  moreover have "distinct (map job_context (index_update_collect batch))"
    by (simp add: out distinct_contexts_group)
  ultimately show ?thesis using no d e by simp
next
  case (Some j)
  have out: "index_update_collect batch = [j]"
    using Some by (simp add: index_update_collect_def)
  have "j \<in> set batch \<and> is_reindex j"
    using Some by (auto simp: find_Some_iff)
  with out show ?thesis by auto
qed


text \<open>
  The two examples of the specification: the requests for the ids 1, 2, 1, 3 collapse
  into one job for 1, 2, 3; a batch with a "reindex everything" job yields only that job.
\<close>

theorem index_update_collect_ids_witness:
  "index_update_collect
     [UpdateEntities ''en'' [1::nat], UpdateEntities ''en'' [2], UpdateEntities ''en'' [1],
      UpdateEntities ''en'' [3]] = [UpdateEntities ''en'' [1, 2, 3]] \<and>
   index_update_collect
     [UpdateEntities ''en'' [1::nat], ReindexEverything ''en'', UpdateEntities ''de'' [2]]
     = [ReindexEverything ''en'']"
  using index_update_collect_ids [of "[UpdateEntities ''en'' [1::nat], UpdateEntities ''en'' [2],
      UpdateEntities ''en'' [1], UpdateEntities ''en'' [3]]"]
    index_update_collect_ids [of "[UpdateEntities ''en'' [1::nat], ReindexEverything ''en'',
      UpdateEntities ''de'' [2]]"]
  by (simp add: index_update_collect_def all_requests_def)

subsection \<open>Order of the collection jobs\<close>

lemma two_in_list:
  assumes "x \<in> set xs" "y \<in> set xs" "x \<noteq> y"
  shows "(\<exists>a b c. xs = a @ x # b @ y # c) \<or> (\<exists>a b c. xs = a @ y # b @ x # c)"
proof -
  from assms(1) obtain a c where xs: "xs = a @ x # c" by (auto dest: split_list)
  from assms(2,3) xs have "y \<in> set a \<or> y \<in> set c" by auto
  then show ?thesis
  proof
    assume "y \<in> set a"
    then obtain a1 a2 where "a = a1 @ y # a2" by (auto dest: split_list)
    with xs have "xs = a1 @ y # a2 @ x # c" by simp
    then show ?thesis by blast
  next
    assume "y \<in> set c"
    then obtain c1 c2 where "c = c1 @ y # c2" by (auto dest: split_list)
    with xs have "xs = a @ x # c1 @ y # c2" by simp
    then show ?thesis by blast
  qed
qed

lemma sorted_precedes:
  assumes "sorted (map f xs)" "x \<in> set xs" "y \<in> set xs" "f x < f y"
  shows "\<exists>a b c. xs = a @ x # b @ y # c"
proof -
  from assms(4) have "x \<noteq> y" by auto
  from two_in_list [OF assms(2,3) this] show ?thesis
  proof
    assume "\<exists>a b c. xs = a @ y # b @ x # c"
    then obtain a b c where "xs = a @ y # b @ x # c" by blast
    with assms(1) have "f y \<le> f x" by (simp add: sorted_append)
    with assms(4) show ?thesis by simp
  qed
qed

text \<open>
  Claim C5. The collection-filter reducer returns jobs of the batch, one for each
  distinct collection id of the batch, ordered by hierarchy depth, shallowest first. So
  when the batch asks for a collection \<open>P\<close> and for a child \<open>C\<close> of \<open>P\<close>, the job of \<open>P\<close>
  stands before the job of \<open>C\<close> in the output.
\<close>

theorem collection_filter_collect_order:
  assumes "hierarchy_depth parent depth"
  shows "distinct (map collectionId (collection_filter_collect depth batch)) \<and>
         set (collection_filter_collect depth batch) \<subseteq> set batch \<and>
         set (map collectionId (collection_filter_collect depth batch))
           = set (map collectionId batch) \<and>
         sorted (map (\<lambda>j. depth (collectionId j)) (collection_filter_collect depth batch)) \<and>
         (\<forall>P C. P \<in> set (map collectionId batch) \<and> C \<in> set (map collectionId batch)
                \<and> parent C = Some P \<longrightarrow>
            (\<exists>before between after.
               map collectionId (collection_filter_collect depth batch)
                 = before @ P # between @ C # after))"
proof -
  let ?out = "collection_filter_collect depth batch"
  have d: "distinct (map collectionId ?out)"
    using distinct_dedup_by [of collectionId batch]
    by (simp add: collection_filter_collect_def distinct_map inj_on_def)
  have sub: "set ?out \<subseteq> set batch"
    using dedup_by_subset [of collectionId batch] by (simp add: collection_filter_collect_def)
  have ids: "set (map collectionId ?out) = set (map collectionId batch)"
    using set_dedup_by [of collectionId batch] by (simp add: collection_filter_collect_def)
  have srt: "sorted (map (\<lambda>j. depth (collectionId j)) ?out)"
    by (simp add: collection_filter_collect_def sorted_sort_key)
  have ord: "\<exists>before between after. map collectionId ?out = before @ P # between @ C # after"
    if "P \<in> set (map collectionId batch)" "C \<in> set (map collectionId batch)"
      and pc: "parent C = Some P" for P C
  proof -
    have "depth C = Suc (depth P)"
      using assms pc by (auto simp: hierarchy_depth_def split: option.splits)
    then have lt: "depth P < depth C" by simp
    have s: "sorted (map depth (map collectionId ?out))"
      using srt by (simp add: comp_def)
    show ?thesis
      using sorted_precedes [OF s _ _ lt] that(1,2) ids by blast
  qed
  from d sub ids srt ord show ?thesis by blast
qed

text \<open>
  With collection 2 a child of collection 1, the requests for 2, 1, 2 are emitted as 1, 2.
\<close>

theorem collection_filter_collect_order_witness:
  "hierarchy_depth example_parent example_depth \<and>
   map collectionId (collection_filter_collect example_depth
      [\<lparr>job_ctx = ''en'', collectionId = 2\<rparr>, \<lparr>job_ctx = ''en'', collectionId = 1\<rparr>,
       \<lparr>job_ctx = ''de'', collectionId = 2\<rparr>]) = [1, 2] \<and>
   (\<exists>before between after.
      map collectionId (collection_filter_collect example_depth
        [\<lparr>job_ctx = ''en'', collectionId = 2\<rparr>, \<lparr>job_ctx = ''en'', collectionId = 1\<rparr>,
         \<lparr>job_ctx = ''de'', collectionId = 2\<rparr>]) = before @ 1 # between @ 2 # after)"
proof -
  have h: "hierarchy_depth example_parent example_depth"
    by (simp add: hierarchy_depth_def example_parent_def example_depth_def)
  have e: "map collectionId (collection_filter_collect example_depth
      [\<lparr>job_ctx = ''en'', collectionId = 2\<rparr>, \<lparr>job_ctx = ''en'', collectionId = 1\<rparr>,
       \<lparr>job_ctx = ''de'', collectionId = 2\<rparr>]) = [1, 2]"
    by (simp add: collection_filter_collect_def example_depth_def)
  have p: "example_parent 2 = Some 1" by (simp add: example_parent_def)
  show ?thesis
    using collection_filter_collect_order [OF h, of
      "[\<lparr>job_ctx = ''en'', collectionId = 2\<rparr>, \<lparr>job_ctx = ''en'', collectionId = 1\<rparr>,
       \<lparr>job_ctx = ''de'', collectionId = 2\<rparr>]"] h e p
    by simp
qed

subsection \<open>A reducer that raises\<close>

lemma flush_named_raise:
  assumes "distinct (map identity bs)" "b \<in> set bs" "collect b (held b) = Inl e"
  shows "flush_named (\<lambda>i. i = identity b) bs q = (Inl e, bs, q)"
  using assms
proof (induction bs)
  case Nil
  then show ?case by simp
next
  case (Cons x xs)
  show ?case
  proof (cases "x = b")
    case True
    with Cons.prems show ?thesis by (simp add: flush_buffer_def)
  next
    case False
    with Cons.prems have "b \<in> set xs" "identity x \<noteq> identity b" by auto
    with Cons show ?thesis by simp
  qed
qed

lemma held_add_all: "held (add_all js b) = held b @ js"
  unfolding add_all_def by (induction js arbitrary: b) (simp_all add: add_def)

lemma collect_add_all: "collect (add_all js b) = collect b"
  unfolding add_all_def by (induction js arbitrary: b) (simp_all add: add_def)

text \<open>
  Claim C6. When the \<open>collect\<close> of a registered buffer raises on the held batch, the flush
  of that buffer returns the error and leaves the registry as it was: the held batch is
  not cleared and nothing is handed to the execution queue. The next flush of the buffer,
  after the jobs \<open>js\<close> have been added, calls \<open>collect\<close> on the same batch followed by
  \<open>js\<close>.
\<close>

theorem flush_collect_error_keeps_batch:
  assumes "distinct (map identity (buffers reg))"
      and "b \<in> set (buffers reg)"
      and "collect b (held b) = Inl e"
  shows "registry_flush [identity b] reg = (Inl e, reg) \<and>
         flush_buffer b queue = (Inl e, b, queue) \<and>
         flush_buffer (add_all js b) queue =
           (case collect b (held b @ js) of
              Inl e' \<Rightarrow> (Inl e', add_all js b, queue)
            | Inr jobs \<Rightarrow> (Inr jobs, clear (add_all js b), queue @ jobs))"
proof -
  have "flush_named (\<lambda>i. i = identity b) (buffers reg) (executionQueue reg)
          = (Inl e, buffers reg, executionQueue reg)"
    using assms by (rule flush_named_raise)
  then have r: "registry_flush [identity b] reg = (Inl e, reg)"
    by (simp add: registry_flush_def)
  have f: "flush_buffer b queue = (Inl e, b, queue)"
    using assms(3) by (simp add: flush_buffer_def)
  have n: "flush_buffer (add_all js b) queue =
           (case collect b (held b @ js) of
              Inl e' \<Rightarrow> (Inl e', add_all js b, queue)
            | Inr jobs \<Rightarrow> (Inr jobs, clear (add_all js b), queue @ jobs))"
    by (simp add: flush_buffer_def held_add_all collect_add_all)
  from r f n show ?thesis by simp
qed

theorem flush_collect_error_keeps_batch_witness:
  "registry_flush [''collection''] example_registry
     = (Inl (Rejected ''collect failed''), example_registry) \<and>
   flush_buffer (example_buffer [5, 13]) [1]
     = (Inl (Rejected ''collect failed''), example_buffer [5, 13], [1]) \<and>
   flush_buffer (add_all [6] (example_buffer [5, 13])) [1]
     = (Inl (Rejected ''collect failed''), add_all [6] (example_buffer [5, 13]), [1])"
proof -
  have d: "distinct (map identity (buffers example_registry))"
    by (simp add: example_registry_def example_buffer_def)
  have m: "example_buffer [5, 13] \<in> set (buffers example_registry)"
    by (simp add: example_registry_def)
  have c: "collect (example_buffer [5, 13]) (held (example_buffer [5, 13]))
             = Inl (Rejected ''collect failed'')"
    by (simp add: example_buffer_def)
  have i: "identity (example_buffer [5, 13]) = ''collection''"
    by (simp add: example_buffer_def)
  have c2: "collect (example_buffer [5, 13]) (held (example_buffer [5, 13]) @ [6])
             = Inl (Rejected ''collect failed'')"
    by (simp add: example_buffer_def)
  show ?thesis
    using flush_collect_error_keeps_batch [OF d m c, of "[1]" "[6]"] by (simp add: i c2)
qed


end
